theory Spec2Isabelle
  imports Main "HOL-Library.Char_ord"
begin

section \<open>Pages and the document collection\<close>

text \<open>
  A Go \<open>string\<close> and a \<open>[]byte\<close> are both sequences of bytes; a \<^typ>\<open>char\<close> is one
  byte, so the conversion \<open>[]byte(body)\<close> of \<open>saveHandler\<close> keeps the sequence as it is.
\<close>

type_synonym bytes = "char list"

text \<open>\<open>type Page struct { Title string; Body []byte }\<close>. A nil \<open>Body\<close> is the empty sequence.\<close>

record Page =
  Title :: string
  Body :: bytes

text \<open>
  A Go \<open>error\<close> is \<open>None\<close> for \<open>nil\<close> and \<open>Some msg\<close> for an error whose \<open>Error()\<close>
  is \<open>msg\<close>.
\<close>

type_synonym error = "string option"

text \<open>
  A stored document has the two keys that \<open>save\<close> writes: \<open>title\<close> (a string) and
  \<open>body\<close> (binary data). The identifier that the database assigns to a document is not
  modelled.
\<close>

record document =
  bson_title :: string
  bson_body :: bytes

text \<open>
  The two filters of the program: the empty document \<open>bson.D{}\<close>, which every document
  matches, and \<open>bson.D{{"title", v}}\<close>, equality on the key \<open>title\<close>.
\<close>

datatype filter = MatchAll | TitleIs string

fun matches :: "filter \<Rightarrow> document \<Rightarrow> bool" where
  "matches MatchAll d = True"
| "matches (TitleIs v) d = (bson_title d = v)"

text \<open>
  The global \<open>pagesCollection\<close>, passed explicitly: its documents in the order in which
  the database enumerates them, and the error with which the database answers every
  operation while it cannot be reached (\<open>None\<close> when it works).
\<close>

record Collection =
  documents :: "document list"
  failure :: "string option"

subsection \<open>The operations of the database driver\<close>

text \<open>
  The four driver calls of the program. \<open>ReplaceOne\<close> is called without options, so it
  does not upsert: it replaces at most one document, the first that matches the filter
  in the order of the collection, and when none matches it succeeds with a matched count
  of 0 and changes nothing. \<open>DeleteOne\<close> deletes at most one document, the first that
  matches, and \<open>FindOne\<close> returns the first that matches. A failing
  operation returns the error and leaves the documents as they are.
\<close>

fun replace_first :: "('a \<Rightarrow> bool) \<Rightarrow> 'a \<Rightarrow> 'a list \<Rightarrow> 'a list" where
  "replace_first P r [] = []"
| "replace_first P r (d # ds) = (if P d then r # ds else d # replace_first P r ds)"

fun delete_first :: "('a \<Rightarrow> bool) \<Rightarrow> 'a list \<Rightarrow> 'a list" where
  "delete_first P [] = []"
| "delete_first P (d # ds) = (if P d then ds else d # delete_first P ds)"

definition matched_count :: "filter \<Rightarrow> document list \<Rightarrow> nat" where
  "matched_count flt ds = (if list_ex (matches flt) ds then 1 else 0)"

definition ReplaceOne :: "Collection \<Rightarrow> filter \<Rightarrow> document \<Rightarrow> (string + nat) \<times> Collection" where
  "ReplaceOne coll flt replacement =
     (case failure coll of
        Some e \<Rightarrow> (Inl e, coll)
      | None \<Rightarrow>
          (Inr (matched_count flt (documents coll)),
           coll\<lparr>documents := replace_first (matches flt) replacement (documents coll)\<rparr>))"

definition DeleteOne :: "Collection \<Rightarrow> filter \<Rightarrow> (string + nat) \<times> Collection" where
  "DeleteOne coll flt =
     (case failure coll of
        Some e \<Rightarrow> (Inl e, coll)
      | None \<Rightarrow>
          (Inr (matched_count flt (documents coll)),
           coll\<lparr>documents := delete_first (matches flt) (documents coll)\<rparr>))"

definition ErrNoDocuments :: string where
  "ErrNoDocuments = ''mongo: no documents in result''"

text \<open>\<open>FindOne(ctx, filter)\<close>: the first matching document, or the error of the result.\<close>

definition FindOne :: "Collection \<Rightarrow> filter \<Rightarrow> string + document" where
  "FindOne coll flt =
     (case failure coll of
        Some e \<Rightarrow> Inl e
      | None \<Rightarrow>
          (case find (matches flt) (documents coll) of
             None \<Rightarrow> Inl ErrNoDocuments
           | Some d \<Rightarrow> Inr d))"

text \<open>\<open>Find(ctx, filter)\<close>: a cursor over the matching documents, here the list of them.\<close>

definition Find :: "Collection \<Rightarrow> filter \<Rightarrow> string + document list" where
  "Find coll flt =
     (case failure coll of
        Some e \<Rightarrow> Inl e
      | None \<Rightarrow> Inr (filter (matches flt) (documents coll)))"

text \<open>
  \<open>Decode\<close> into a \<open>Page\<close>: the key \<open>title\<close> fills \<open>Title\<close>, the key \<open>body\<close> fills
  \<open>Body\<close>.
\<close>

definition Decode :: "document \<Rightarrow> Page" where
  "Decode d = \<lparr>Title = bson_title d, Body = bson_body d\<rparr>"

section \<open>The page store\<close>

text \<open>\<open>func (p *Page) save() error\<close>\<close>

definition save :: "Page \<Rightarrow> Collection \<Rightarrow> error \<times> Collection" where
  "save p coll =
     (let flt = TitleIs (Title p);
          (res, coll') = ReplaceOne coll flt \<lparr>bson_title = Title p, bson_body = Body p\<rparr>
      in (case res of Inl err \<Rightarrow> (Some err, coll') | Inr _ \<Rightarrow> (None, coll')))"

text \<open>\<open>func deletePage(title string) error\<close>\<close>

definition deletePage :: "string \<Rightarrow> Collection \<Rightarrow> error \<times> Collection" where
  "deletePage title coll =
     (let flt = TitleIs title;
          (res, coll') = DeleteOne coll flt
      in (case res of Inl err \<Rightarrow> (Some err, coll') | Inr _ \<Rightarrow> (None, coll')))"

text \<open>
  \<open>func loadPage(title string) (*Page, error)\<close>: every error of the lookup, whichever it
  is, becomes the error \<open>Page not found\<close>.
\<close>

definition loadPage :: "string \<Rightarrow> Collection \<Rightarrow> string + Page" where
  "loadPage title coll =
     (let flt = TitleIs title
      in (case FindOne coll flt of
            Inl dbErr \<Rightarrow> Inl ''Page not found''
          | Inr d \<Rightarrow> Inr (Decode d)))"

text \<open>
  \<open>log.Fatal\<close> ends the process: a function that may call it returns \<open>Fatal msg\<close>
  then, and \<open>Return v\<close> when it returns \<open>v\<close>.
\<close>

datatype 'a exec = Fatal string | Return 'a

text \<open>The loop of \<open>listPages\<close> over the cursor, appending each decoded title.\<close>

fun listPages_loop :: "document list \<Rightarrow> string list \<Rightarrow> string list" where
  "listPages_loop [] names = names"
| "listPages_loop (d # cur) names = listPages_loop cur (names @ [Title (Decode d)])"

text \<open>\<open>func listPages() ([]string, error)\<close>\<close>

definition listPages :: "Collection \<Rightarrow> (string list \<times> error) exec" where
  "listPages coll =
     (let found = Find coll MatchAll;
          names = []
      in (case found of
            Inl err \<Rightarrow> Fatal err
          | Inr cur \<Rightarrow> Return (listPages_loop cur names, None)))"

section \<open>Requests, responses and templates\<close>

text \<open>
  Of a request the handlers read the path of its URL and its form values
  (\<open>FormValue\<close> gives the first value of a key, and the empty string for a key that
  is absent).
\<close>

record Request =
  URL_Path :: string
  Form :: "string \<rightharpoonup> string list"

definition FormValue :: "Request \<Rightarrow> string \<Rightarrow> string" where
  "FormValue r key = (case Form r key of Some (v # vs) \<Rightarrow> v | _ \<Rightarrow> [])"

text \<open>
  What a handler writes to its \<open>ResponseWriter\<close>: \<open>http.NotFound\<close>, \<open>http.Redirect\<close>
  with its target and status, \<open>http.Error\<close> with its message and status, or the output
  of a template (status 200).
\<close>

datatype response =
  NotFound
| Redirect string nat
| HttpError string nat
| Written string

abbreviation StatusFound :: nat where
  "StatusFound \<equiv> 302"

abbreviation StatusInternalServerError :: nat where
  "StatusInternalServerError \<equiv> 500"

text \<open>
  The template files are not part of the sources, so the parsed template set is a
  parameter: \<open>ExecuteTemplate\<close> of a template name and its data gives the output
  (\<open>Inr\<close>) or an error (\<open>Inl\<close>).
\<close>

datatype template_data = PageData Page | TitlesData "string list"

type_synonym template_set = "string \<Rightarrow> template_data \<Rightarrow> string + string"

text \<open>\<open>func renderPageTemplate(w http.ResponseWriter, tmpl string, p *Page)\<close>\<close>

definition renderPageTemplate :: "template_set \<Rightarrow> string \<Rightarrow> Page \<Rightarrow> response" where
  "renderPageTemplate templates tmpl p =
     (case templates (tmpl @ ''.html'') (PageData p) of
        Inl err \<Rightarrow> HttpError err StatusInternalServerError
      | Inr out \<Rightarrow> Written out)"

section \<open>The router\<close>

text \<open>
  \<open>validPath = regexp.MustCompile("^/(edit|save|view|delete)/([a-zA-Z0-9]+)$")\<close>.
  The character class is \<open>alnum\<close>; \<open>match_alternatives\<close> tries the alternatives of the
  first group from left to right, and \<open>match_alternative\<close> requires the path to start
  with the alternative between two slashes and its rest, up to its end, to be one or more
  characters of the class. The result of \<open>FindStringSubmatch\<close> is the whole
  match followed by the two groups.
\<close>

definition alnum :: "char \<Rightarrow> bool" where
  "alnum c \<longleftrightarrow>
     (CHR ''a'' \<le> c \<and> c \<le> CHR ''z'') \<or> (CHR ''A'' \<le> c \<and> c \<le> CHR ''Z'')
     \<or> (CHR ''0'' \<le> c \<and> c \<le> CHR ''9'')"

fun strip_prefix :: "string \<Rightarrow> string \<Rightarrow> string option" where
  "strip_prefix [] s = Some s"
| "strip_prefix (c # cs) [] = None"
| "strip_prefix (c # cs) (d # ds) = (if c = d then strip_prefix cs ds else None)"

definition match_alternative :: "string \<Rightarrow> string \<Rightarrow> string list option" where
  "match_alternative a path =
     (case strip_prefix (''/'' @ a @ ''/'') path of
        None \<Rightarrow> None
      | Some rest \<Rightarrow>
          if rest \<noteq> [] \<and> list_all alnum rest then Some [path, a, rest] else None)"

fun match_alternatives :: "string list \<Rightarrow> string \<Rightarrow> string list option" where
  "match_alternatives [] path = None"
| "match_alternatives (a # as) path =
     (case match_alternative a path of
        Some m \<Rightarrow> Some m
      | None \<Rightarrow> match_alternatives as path)"

definition validPath_FindStringSubmatch :: "string \<Rightarrow> string list option" where
  "validPath_FindStringSubmatch path =
     match_alternatives [''edit'', ''save'', ''view'', ''delete''] path"

text \<open>
  \<open>main\<close> registers \<open>makeHandler\<close> of the view, edit, delete and save handlers for the
  paths that start with \<open>/view/\<close>, \<open>/edit/\<close>, \<open>/delete/\<close> and \<open>/save/\<close>, and the list
  handler for \<open>/list\<close>. A handler takes the request and the collection and returns its
  response and the collection after it.
\<close>

type_synonym handler = "Request \<Rightarrow> Collection \<Rightarrow> response \<times> Collection"

text \<open>\<open>func makeHandler(fn func(http.ResponseWriter, *http.Request, string)) http.HandlerFunc\<close>\<close>

definition makeHandler :: "(Request \<Rightarrow> string \<Rightarrow> Collection \<Rightarrow> response \<times> Collection) \<Rightarrow> handler" where
  "makeHandler fn r coll =
     (case validPath_FindStringSubmatch (URL_Path r) of
        None \<Rightarrow> (NotFound, coll)
      | Some m \<Rightarrow> fn r (m ! 2) coll)"

section \<open>The handlers\<close>

definition viewHandler :: "template_set \<Rightarrow> Request \<Rightarrow> string \<Rightarrow> Collection \<Rightarrow> response \<times> Collection" where
  "viewHandler templates r title coll =
     (case loadPage title coll of
        Inl err \<Rightarrow> (Redirect (''/edit/'' @ title) StatusFound, coll)
      | Inr p \<Rightarrow> (renderPageTemplate templates ''view'' p, coll))"

definition editHandler :: "template_set \<Rightarrow> Request \<Rightarrow> string \<Rightarrow> Collection \<Rightarrow> response \<times> Collection" where
  "editHandler templates r title coll =
     (let p = (case loadPage title coll of
                 Inl err \<Rightarrow> \<lparr>Title = title, Body = []\<rparr>
               | Inr p \<Rightarrow> p)
      in (renderPageTemplate templates ''edit'' p, coll))"

definition saveHandler :: "Request \<Rightarrow> string \<Rightarrow> Collection \<Rightarrow> response \<times> Collection" where
  "saveHandler r title coll =
     (let body = FormValue r ''body'';
          p = \<lparr>Title = title, Body = body\<rparr>;
          (err, coll') = save p coll
      in (case err of
            Some msg \<Rightarrow> (HttpError msg StatusInternalServerError, coll')
          | None \<Rightarrow> (Redirect (''/view/'' @ title) StatusFound, coll')))"

definition deleteHandler :: "Request \<Rightarrow> string \<Rightarrow> Collection \<Rightarrow> response \<times> Collection" where
  "deleteHandler r title coll =
     (let (err, coll') = deletePage title coll
      in (case err of
            Some msg \<Rightarrow> (HttpError msg StatusInternalServerError, coll')
          | None \<Rightarrow> (Redirect ''/list'' StatusFound, coll')))"

text \<open>
  \<open>func listHandler(w http.ResponseWriter, r *http.Request)\<close>: it reads the collection
  only, and it does not return when \<open>listPages\<close> ends the process.
\<close>

definition listHandler :: "template_set \<Rightarrow> Request \<Rightarrow> Collection \<Rightarrow> response exec" where
  "listHandler templates r coll =
     (case listPages coll of
        Fatal msg \<Rightarrow> Fatal msg
      | Return (pages, err) \<Rightarrow>
          (case err of
             Some _ \<Rightarrow> Return (Redirect ''/list'' StatusFound)
           | None \<Rightarrow>
               (case templates ''list.html'' (TitlesData pages) of
                  Inl e \<Rightarrow> Return (HttpError e StatusInternalServerError)
                | Inr out \<Rightarrow> Return (Written out))))"

section \<open>Predicates of the properties\<close>

text \<open>A title that the second group of \<open>validPath\<close> accepts: it matches \<open>^[a-zA-Z0-9]+$\<close>.\<close>

definition valid_title :: "string \<Rightarrow> bool" where
  "valid_title t \<longleftrightarrow> t \<noteq> [] \<and> list_all alnum t"

text \<open>The collection holds a document with this title.\<close>

definition stored :: "string \<Rightarrow> Collection \<Rightarrow> bool" where
  "stored title coll \<longleftrightarrow> list_ex (matches (TitleIs title)) (documents coll)"

text \<open>The data model's invariant: one document per title.\<close>

definition unique_titles :: "Collection \<Rightarrow> bool" where
  "unique_titles coll \<longleftrightarrow> distinct (map bson_title (documents coll))"

section \<open>Sample data\<close>

text \<open>
  A template set for the examples: the view and edit templates print the title and the
  body of the page, the list template prints the titles, any other name is not defined.
\<close>

fun sample_templates :: template_set where
  "sample_templates name (PageData p) =
     (if name = ''view.html'' \<or> name = ''edit.html'' then Inr (Title p @ '': '' @ Body p)
      else Inl ''html/template: template is undefined'')"
| "sample_templates name (TitlesData ts) =
     (if name = ''list.html'' then Inr (concat ts)
      else Inl ''html/template: template is undefined'')"

definition empty_collection :: Collection where
  "empty_collection = \<lparr>documents = [], failure = None\<rparr>"

definition unreachable_collection :: Collection where
  "unreachable_collection =
     \<lparr>documents = [\<lparr>bson_title = ''Foo'', bson_body = ''hello''\<rparr>],
      failure = Some ''server selection error''\<rparr>"

definition two_pages :: Collection where
  "two_pages =
     \<lparr>documents = [\<lparr>bson_title = ''Foo'', bson_body = ''hello''\<rparr>,
                   \<lparr>bson_title = ''Bar'', bson_body = ''world''\<rparr>],
      failure = None\<rparr>"

text \<open>Requests without form values, by their paths.\<close>

definition request_for :: "string \<Rightarrow> Request" where
  "request_for path = \<lparr>URL_Path = path, Form = Map.empty\<rparr>"

section \<open>Properties of the router\<close>

lemma strip_prefix_Some: "strip_prefix pre s = Some rest \<longleftrightarrow> s = pre @ rest"
  by (induction pre s rule: strip_prefix.induct) auto

lemma match_alternative_Some:
  "match_alternative a path = Some m \<longleftrightarrow>
     (\<exists>t. valid_title t \<and> path = ''/'' @ a @ ''/'' @ t \<and> m = [path, a, t])"
proof (cases "strip_prefix (''/'' @ a @ ''/'') path")
  case None
  then have "\<And>t. path \<noteq> (''/'' @ a @ ''/'') @ t"
    by (metis strip_prefix_Some option.distinct(1))
  with None show ?thesis
    unfolding match_alternative_def by auto
next
  case (Some rest)
  then have "path = (''/'' @ a @ ''/'') @ rest"
    by (simp only: strip_prefix_Some)
  with Some show ?thesis
    unfolding match_alternative_def valid_title_def by auto
qed

lemma match_alternatives_Some:
  "match_alternatives as path = Some m \<Longrightarrow>
     \<exists>a t. a \<in> set as \<and> valid_title t \<and> path = ''/'' @ a @ ''/'' @ t \<and> m = [path, a, t]"
proof (induction as)
  case Nil
  then show ?case by simp
next
  case (Cons a as)
  show ?case
  proof (cases "match_alternative a path")
    case None
    with Cons.prems have "match_alternatives as path = Some m" by simp
    from Cons.IH [OF this] show ?thesis by auto
  next
    case (Some m')
    with Cons.prems have "match_alternative a path = Some m" by simp
    then show ?thesis unfolding match_alternative_Some by auto
  qed
qed

lemma validPath_match:
  assumes a: "a \<in> set [''edit'', ''save'', ''view'', ''delete'']" and t: "valid_title t"
  shows "validPath_FindStringSubmatch (''/'' @ a @ ''/'' @ t) = Some [''/'' @ a @ ''/'' @ t, a, t]"
proof -
  have ma: "match_alternative a (''/'' @ a @ ''/'' @ t) = Some [''/'' @ a @ ''/'' @ t, a, t]"
    using t unfolding match_alternative_Some by blast
  from a consider "a = ''edit''" | "a = ''save''" | "a = ''view''" | "a = ''delete''" by auto
  then show ?thesis
  proof cases
    case 1
    with ma show ?thesis by (simp add: validPath_FindStringSubmatch_def)
  next
    case 2
    with ma show ?thesis
      by (simp add: validPath_FindStringSubmatch_def) (simp add: match_alternative_def)
  next
    case 3
    with ma show ?thesis
      by (simp add: validPath_FindStringSubmatch_def) (simp add: match_alternative_def)
  next
    case 4
    with ma show ?thesis
      by (simp add: validPath_FindStringSubmatch_def) (simp add: match_alternative_def)
  qed
qed

lemma split_at_first:
  "x \<notin> set xs \<Longrightarrow> x \<notin> set xs' \<Longrightarrow> xs @ x # ys = xs' @ x # ys' \<Longrightarrow> xs = xs' \<and> ys = ys'"
proof (induction xs arbitrary: xs')
  case Nil
  then show ?case by (cases xs') auto
next
  case (Cons z zs)
  then show ?case by (cases xs') auto
qed

lemma actions_no_slash:
  "a \<in> set [''edit'', ''save'', ''view'', ''delete''] \<Longrightarrow> CHR ''/'' \<notin> set a"
  by auto

lemma validPath_no_match:
  assumes a: "a \<in> set [''edit'', ''save'', ''view'', ''delete'']" and t: "\<not> valid_title t"
  shows "validPath_FindStringSubmatch (''/'' @ a @ ''/'' @ t) = None"
proof (rule ccontr)
  assume "validPath_FindStringSubmatch (''/'' @ a @ ''/'' @ t) \<noteq> None"
  then obtain m where "match_alternatives [''edit'', ''save'', ''view'', ''delete''] (''/'' @ a @ ''/'' @ t) = Some m"
    by (auto simp: validPath_FindStringSubmatch_def)
  from match_alternatives_Some [OF this] obtain a' t' where
    a': "a' \<in> set [''edit'', ''save'', ''view'', ''delete'']" and
    t': "valid_title t'" and eq: "''/'' @ a @ ''/'' @ t = ''/'' @ a' @ ''/'' @ t'"
    by blast
  from eq have "a @ CHR ''/'' # t = a' @ CHR ''/'' # t'" by simp
  with actions_no_slash [OF a] actions_no_slash [OF a'] have "t = t'"
    using split_at_first [of "CHR ''/''" a a' t t'] by simp
  with t t' show False by simp
qed

lemma validPath_FindStringSubmatch_Some:
  "validPath_FindStringSubmatch path = Some m \<longleftrightarrow>
     (\<exists>a t. a \<in> set [''edit'', ''save'', ''view'', ''delete''] \<and> valid_title t \<and>
        path = ''/'' @ a @ ''/'' @ t \<and> m = [path, a, t])"
proof
  assume "validPath_FindStringSubmatch path = Some m"
  then show "\<exists>a t. a \<in> set [''edit'', ''save'', ''view'', ''delete''] \<and> valid_title t \<and>
        path = ''/'' @ a @ ''/'' @ t \<and> m = [path, a, t]"
    unfolding validPath_FindStringSubmatch_def by (rule match_alternatives_Some)
next
  assume "\<exists>a t. a \<in> set [''edit'', ''save'', ''view'', ''delete''] \<and> valid_title t \<and>
        path = ''/'' @ a @ ''/'' @ t \<and> m = [path, a, t]"
  then obtain a t where "a \<in> set [''edit'', ''save'', ''view'', ''delete'']" "valid_title t"
    "path = ''/'' @ a @ ''/'' @ t" "m = [path, a, t]" by blast
  with validPath_match [of a t] show "validPath_FindStringSubmatch path = Some m" by simp
qed

section \<open>Properties of the page store\<close>

lemma replace_first_no_match:
  "\<not> list_ex P ds \<Longrightarrow> replace_first P r ds = ds"
  by (induction ds) auto

lemma replace_first_split:
  "list_ex P ds \<Longrightarrow>
     \<exists>pre old post. ds = pre @ old # post \<and> \<not> list_ex P pre \<and> P old \<and>
        replace_first P r ds = pre @ r # post"
proof (induction ds)
  case Nil
  then show ?case by simp
next
  case (Cons d ds)
  show ?case
  proof (cases "P d")
    case True
    then have "d # ds = [] @ d # ds \<and> \<not> list_ex P [] \<and> P d \<and> replace_first P r (d # ds) = [] @ r # ds"
      by simp
    then show ?thesis by blast
  next
    case False
    with Cons.prems have "list_ex P ds" by simp
    from Cons.IH [OF this] obtain pre old post where
      h: "ds = pre @ old # post" "\<not> list_ex P pre" "P old" "replace_first P r ds = pre @ r # post"
      by blast
    with False have "d # ds = (d # pre) @ old # post \<and> \<not> list_ex P (d # pre) \<and> P old \<and>
        replace_first P r (d # ds) = (d # pre) @ r # post"
      by simp
    then show ?thesis by blast
  qed
qed

lemma find_replace_first:
  "P r \<Longrightarrow> list_ex P ds \<Longrightarrow> find P (replace_first P r ds) = Some r"
  by (induction ds) auto

lemma matches_TitleIs: "matches (TitleIs t) = (\<lambda>d. bson_title d = t)"
  by (rule ext) simp

lemma replace_first_unique:
  "distinct (map f ds) \<Longrightarrow> f r = t \<Longrightarrow>
     d \<in> set (replace_first (\<lambda>x. f x = t) r ds) \<Longrightarrow> f d = t \<Longrightarrow> d = r"
proof (induction ds)
  case Nil
  then show ?case by simp
next
  case (Cons x xs)
  show ?case
  proof (cases "f x = t")
    case True
    with Cons.prems have "d = r \<or> d \<in> set xs" by simp
    moreover from True Cons.prems(1) have "t \<notin> f ` set xs" by auto
    ultimately show ?thesis using Cons.prems(4) by auto
  next
    case False
    with Cons.prems have "d \<in> set (replace_first (\<lambda>x. f x = t) r xs)" by auto
    with Cons.IH Cons.prems show ?thesis by simp
  qed
qed

lemma map_title_replace_first:
  "map bson_title (replace_first (matches (TitleIs t)) \<lparr>bson_title = t, bson_body = b\<rparr> ds)
     = map bson_title ds"
  by (induction ds) auto

lemma set_delete_first: "set (delete_first P ds) \<subseteq> set ds"
  by (induction ds) auto

lemma title_delete_first:
  "distinct (map bson_title ds) \<Longrightarrow>
     t \<notin> bson_title ` set (delete_first (matches (TitleIs t)) ds)"
proof (induction ds)
  case Nil
  then show ?case by simp
next
  case (Cons d ds)
  then show ?case by (cases "bson_title d = t") auto
qed

lemma distinct_delete_first:
  "distinct (map f ds) \<Longrightarrow> distinct (map f (delete_first P ds))"
proof (induction ds)
  case Nil
  then show ?case by simp
next
  case (Cons d ds)
  moreover have "f ` set (delete_first P ds) \<subseteq> f ` set ds"
    using set_delete_first [of P ds] by blast
  ultimately show ?case by auto
qed

lemma loadPage_not_stored:
  "\<not> stored title coll \<Longrightarrow> loadPage title coll = Inl ''Page not found''"
proof -
  assume "\<not> stored title coll"
  then have "find (matches (TitleIs title)) (documents coll) = None"
    by (simp add: stored_def list_ex_iff find_None_iff)
  then show ?thesis
    by (simp add: loadPage_def FindOne_def split: option.splits)
qed

lemma loadPage_failure:
  "failure coll = Some e \<Longrightarrow> loadPage title coll = Inl ''Page not found''"
  by (simp add: loadPage_def FindOne_def)

lemma save_result:
  "save p coll =
     (case failure coll of
        Some e \<Rightarrow> (Some e, coll)
      | None \<Rightarrow> (None, coll\<lparr>documents :=
          replace_first (matches (TitleIs (Title p))) \<lparr>bson_title = Title p, bson_body = Body p\<rparr>
            (documents coll)\<rparr>))"
  by (simp add: save_def ReplaceOne_def split: option.splits)

lemma deletePage_result:
  "deletePage title coll =
     (case failure coll of
        Some e \<Rightarrow> (Some e, coll)
      | None \<Rightarrow> (None, coll\<lparr>documents := delete_first (matches (TitleIs title)) (documents coll)\<rparr>))"
  by (simp add: deletePage_def DeleteOne_def split: option.splits)

lemma save_preserves_unique_titles:
  "unique_titles coll \<Longrightarrow> unique_titles (snd (save p coll))"
  by (simp add: save_result unique_titles_def map_title_replace_first split: option.splits)

lemma deletePage_preserves_unique_titles:
  "unique_titles coll \<Longrightarrow> unique_titles (snd (deletePage title coll))"
  by (simp add: deletePage_result unique_titles_def distinct_delete_first split: option.splits)

lemma save_absent_title_unchanged:
  "\<not> stored (Title p) coll \<Longrightarrow> failure coll = None \<Longrightarrow> save p coll = (None, coll)"
  by (simp add: save_result stored_def replace_first_no_match)

section \<open>Properties of the handlers\<close>

lemma makeHandler_valid:
  assumes a: "a \<in> set [''edit'', ''save'', ''view'', ''delete'']" and t: "valid_title title"
    and p: "URL_Path r = ''/'' @ a @ ''/'' @ title"
  shows "makeHandler fn r coll = fn r title coll"
  using validPath_match [OF a t] p by (simp add: makeHandler_def)

lemma listPages_loop_map: "listPages_loop cur names = names @ map bson_title cur"
  by (induction cur arbitrary: names) (simp_all add: Decode_def)

lemma listPages_reachable:
  "failure coll = None \<Longrightarrow> listPages coll = Return (map bson_title (documents coll), None)"
  by (simp add: listPages_def Find_def listPages_loop_map)

lemma listHandler_no_pages:
  "failure coll = None \<Longrightarrow> documents coll = [] \<Longrightarrow>
     listPages coll = Return ([], None) \<and>
     listHandler templates r coll =
       (case templates ''list.html'' (TitlesData []) of
          Inl e \<Rightarrow> Return (HttpError e StatusInternalServerError)
        | Inr out \<Rightarrow> Return (Written out))"
  by (simp add: listHandler_def listPages_reachable)

lemma listPages_never_returns_error:
  "listPages coll = Return (names, err) \<Longrightarrow> err = None"
  by (auto simp: listPages_def split: sum.splits)

lemma listHandler_never_redirects:
  "listHandler templates r coll \<noteq> Return (Redirect url code)"
  by (auto simp: listHandler_def listPages_def split: sum.splits)

lemma saveHandler_missing_body:
  "Form r ''body'' = None \<Longrightarrow>
     saveHandler r title coll =
       (case save \<lparr>Title = title, Body = []\<rparr> coll of
          (Some msg, coll') \<Rightarrow> (HttpError msg StatusInternalServerError, coll')
        | (None, coll') \<Rightarrow> (Redirect (''/view/'' @ title) StatusFound, coll'))"
  by (simp add: saveHandler_def FormValue_def split: prod.splits)

section \<open>The claims\<close>

text \<open>
  C1 (the code at the failing input): on a collection with no document titled \<open>Foo\<close>,
  saving the page \<open>Foo\<close> reports success and creates no document.
\<close>

theorem save_absent_title_creates_nothing:
  "save \<lparr>Title = ''Foo'', Body = ''hello''\<rparr> empty_collection = (None, empty_collection)"
  by (simp add: save_def ReplaceOne_def empty_collection_def matched_count_def)

text \<open>
  C2 (the code at the failing input): on a collection with no document titled \<open>Foo\<close>,
  saving the page \<open>Foo\<close> succeeds, and loading \<open>Foo\<close> from the resulting collection
  returns the error \<open>Page not found\<close> instead of the saved body.
\<close>

theorem save_then_load_absent_title:
  "fst (save \<lparr>Title = ''Foo'', Body = ''hello''\<rparr> empty_collection) = None
   \<and> loadPage ''Foo'' (snd (save \<lparr>Title = ''Foo'', Body = ''hello''\<rparr> empty_collection))
       = Inl ''Page not found''"
  by (simp add: save_result empty_collection_def loadPage_def FindOne_def)

text \<open>
  C3: when the title already has a stored document, a successful save replaces the first
  document with that title, as a whole, by the document made of the title and the new
  body alone; every other document stays as it was, and loading the title then returns
  exactly the saved page. In a collection with one document per title, no document with
  that title keeps another body.
\<close>

theorem save_replaces_whole_document:
  assumes st: "stored (Title p) coll" and ok: "fst (save p coll) = None"
  shows "(\<exists>pre old post.
            documents coll = pre @ old # post \<and> \<not> list_ex (matches (TitleIs (Title p))) pre \<and>
            bson_title old = Title p \<and>
            documents (snd (save p coll)) =
              pre @ \<lparr>bson_title = Title p, bson_body = Body p\<rparr> # post)
         \<and> loadPage (Title p) (snd (save p coll)) = Inr p
         \<and> (unique_titles coll \<longrightarrow>
              (\<forall>d \<in> set (documents (snd (save p coll))).
                 bson_title d = Title p \<longrightarrow> bson_body d = Body p))"
proof -
  let ?P = "matches (TitleIs (Title p))"
  let ?r = "\<lparr>bson_title = Title p, bson_body = Body p\<rparr>"
  from ok have nf: "failure coll = None"
    by (simp add: save_result split: option.splits)
  then have docs: "documents (snd (save p coll)) = replace_first ?P ?r (documents coll)"
    and fl: "failure (snd (save p coll)) = None"
    by (simp_all add: save_result)
  from st have ex: "list_ex ?P (documents coll)" by (simp add: stored_def)
  from replace_first_split [OF ex, of ?r] obtain pre old post where
    "documents coll = pre @ old # post" "\<not> list_ex ?P pre" "?P old"
    "replace_first ?P ?r (documents coll) = pre @ ?r # post"
    by blast
  then have first: "\<exists>pre old post.
            documents coll = pre @ old # post \<and> \<not> list_ex ?P pre \<and>
            bson_title old = Title p \<and>
            documents (snd (save p coll)) = pre @ ?r # post"
    using docs by auto
  have "find ?P (replace_first ?P ?r (documents coll)) = Some ?r"
    using ex by (simp add: find_replace_first)
  then have load: "loadPage (Title p) (snd (save p coll)) = Inr p"
    using docs fl by (simp add: loadPage_def FindOne_def Decode_def)
  have only: "bson_body d = Body p"
    if u: "unique_titles coll" and d: "d \<in> set (documents (snd (save p coll)))"
      and t: "bson_title d = Title p" for d
  proof -
    from u have "distinct (map bson_title (documents coll))" by (simp add: unique_titles_def)
    from replace_first_unique [OF this _ _ t, of ?r] d docs have "d = ?r"
      by (simp add: matches_TitleIs)
    then show ?thesis by simp
  qed
  from first load only show ?thesis by blast
qed

text \<open>
  Witness: the hypotheses hold for the page \<open>Foo\<close> with the new body \<open>bye\<close> in a
  collection of two pages.
\<close>

theorem save_replaces_whole_document_witness:
  "stored ''Foo'' two_pages \<and> unique_titles two_pages
   \<and> fst (save \<lparr>Title = ''Foo'', Body = ''bye''\<rparr> two_pages) = None
   \<and> documents (snd (save \<lparr>Title = ''Foo'', Body = ''bye''\<rparr> two_pages))
       = [\<lparr>bson_title = ''Foo'', bson_body = ''bye''\<rparr>, \<lparr>bson_title = ''Bar'', bson_body = ''world''\<rparr>]
   \<and> loadPage ''Foo'' (snd (save \<lparr>Title = ''Foo'', Body = ''bye''\<rparr> two_pages))
       = Inr \<lparr>Title = ''Foo'', Body = ''bye''\<rparr>"
proof -
  have st: "stored (Title \<lparr>Title = ''Foo'', Body = ''bye''\<rparr>) two_pages"
    by (simp add: stored_def two_pages_def)
  have ok: "fst (save \<lparr>Title = ''Foo'', Body = ''bye''\<rparr> two_pages) = None"
    by (simp add: save_result two_pages_def)
  have docs: "documents (snd (save \<lparr>Title = ''Foo'', Body = ''bye''\<rparr> two_pages))
       = [\<lparr>bson_title = ''Foo'', bson_body = ''bye''\<rparr>, \<lparr>bson_title = ''Bar'', bson_body = ''world''\<rparr>]"
    by (simp add: save_result two_pages_def)
  have u: "unique_titles two_pages" by (simp add: unique_titles_def two_pages_def)
  from save_replaces_whole_document [OF st ok] st ok docs u show ?thesis by simp
qed

text \<open>
  C4: in a collection with one document per title, after a successful delete of a title,
  loading that title returns the error \<open>Page not found\<close> and no page.
\<close>

theorem delete_then_load_not_found:
  assumes u: "unique_titles coll" and d: "deletePage title coll = (None, coll')"
  shows "loadPage title coll' = Inl ''Page not found''"
proof -
  from d have nf: "failure coll = None"
    by (simp add: deletePage_result split: option.splits)
  with d have c': "coll' = coll\<lparr>documents := delete_first (matches (TitleIs title)) (documents coll)\<rparr>"
    by (simp add: deletePage_result)
  from u have "title \<notin> bson_title ` set (delete_first (matches (TitleIs title)) (documents coll))"
    unfolding unique_titles_def by (rule title_delete_first)
  then have "\<not> stored title coll'"
    using c' by (auto simp: stored_def list_ex_iff)
  then show ?thesis by (rule loadPage_not_stored)
qed

text \<open>
  Witness: the hypotheses hold for deleting \<open>Foo\<close> from a collection of two pages.
\<close>

theorem delete_then_load_not_found_witness:
  "unique_titles two_pages
   \<and> deletePage ''Foo'' two_pages
       = (None, \<lparr>documents = [\<lparr>bson_title = ''Bar'', bson_body = ''world''\<rparr>], failure = None\<rparr>)
   \<and> loadPage ''Foo'' \<lparr>documents = [\<lparr>bson_title = ''Bar'', bson_body = ''world''\<rparr>], failure = None\<rparr>
       = Inl ''Page not found''"
proof -
  have u: "unique_titles two_pages" by (simp add: unique_titles_def two_pages_def)
  have d: "deletePage ''Foo'' two_pages
       = (None, \<lparr>documents = [\<lparr>bson_title = ''Bar'', bson_body = ''world''\<rparr>], failure = None\<rparr>)"
    by (simp add: deletePage_result two_pages_def)
  from u d delete_then_load_not_found [OF u d] show ?thesis by simp
qed

text \<open>
  C5: for a valid title, a request to \<open>/view/<title>\<close> passes the router; when the
  collection has no document with that title the response is a redirect to
  \<open>/edit/<title>\<close> with status 302, whatever the templates are, and the collection is
  unchanged; when loading the title gives a page, the response is the view template
  rendered with that page (its output, when the template executes without error).
\<close>

theorem view_redirects_or_renders:
  assumes t: "valid_title title" and p: "URL_Path r = ''/view/'' @ title"
  shows "(\<not> stored title coll \<longrightarrow>
            makeHandler (viewHandler templates) r coll
              = (Redirect (''/edit/'' @ title) StatusFound, coll))
       \<and> (\<forall>pg. loadPage title coll = Inr pg \<longrightarrow>
            makeHandler (viewHandler templates) r coll
              = (renderPageTemplate templates ''view'' pg, coll)
            \<and> (\<forall>out. templates ''view.html'' (PageData pg) = Inr out \<longrightarrow>
                 makeHandler (viewHandler templates) r coll = (Written out, coll)))"
proof -
  have "URL_Path r = ''/'' @ ''view'' @ ''/'' @ title" using p by simp
  then have mh: "makeHandler (viewHandler templates) r coll = viewHandler templates r title coll"
    using t by (intro makeHandler_valid [where a = "''view''"]) simp_all
  have absent: "\<not> stored title coll \<Longrightarrow>
      viewHandler templates r title coll = (Redirect (''/edit/'' @ title) StatusFound, coll)"
    by (simp add: viewHandler_def loadPage_not_stored)
  have present: "viewHandler templates r title coll = (renderPageTemplate templates ''view'' pg, coll)"
    if "loadPage title coll = Inr pg" for pg
    using that by (simp add: viewHandler_def)
  have rendered: "renderPageTemplate templates ''view'' pg = Written out"
    if "templates ''view.html'' (PageData pg) = Inr out" for pg out
    using that by (simp add: renderPageTemplate_def)
  from mh absent present rendered show ?thesis by simp
qed

text \<open>
  Witness: the hypotheses hold for \<open>/view/Foo\<close>, on the empty collection and on a
  collection that holds \<open>Foo\<close>.
\<close>

theorem view_redirects_or_renders_witness:
  "valid_title ''Foo'' \<and> URL_Path (request_for ''/view/Foo'') = ''/view/'' @ ''Foo''
   \<and> \<not> stored ''Foo'' empty_collection
   \<and> makeHandler (viewHandler sample_templates) (request_for ''/view/Foo'') empty_collection
       = (Redirect ''/edit/Foo'' StatusFound, empty_collection)
   \<and> loadPage ''Foo'' two_pages = Inr \<lparr>Title = ''Foo'', Body = ''hello''\<rparr>
   \<and> makeHandler (viewHandler sample_templates) (request_for ''/view/Foo'') two_pages
       = (Written ''Foo: hello'', two_pages)"
proof -
  have t: "valid_title ''Foo''" by (simp add: valid_title_def alnum_def)
  have p: "URL_Path (request_for ''/view/Foo'') = ''/view/'' @ ''Foo''"
    by (simp add: request_for_def)
  have n: "\<not> stored ''Foo'' empty_collection" by (simp add: stored_def empty_collection_def)
  have l: "loadPage ''Foo'' two_pages = Inr \<lparr>Title = ''Foo'', Body = ''hello''\<rparr>"
    by (simp add: loadPage_def FindOne_def two_pages_def Decode_def)
  have out: "sample_templates ''view.html'' (PageData \<lparr>Title = ''Foo'', Body = ''hello''\<rparr>)
      = Inr ''Foo: hello''" by simp
  from view_redirects_or_renders [OF t p, of empty_collection sample_templates] n
  have a: "makeHandler (viewHandler sample_templates) (request_for ''/view/Foo'') empty_collection
       = (Redirect ''/edit/Foo'' StatusFound, empty_collection)" by simp
  from view_redirects_or_renders [OF t p, of two_pages sample_templates] l out
  have b: "makeHandler (viewHandler sample_templates) (request_for ''/view/Foo'') two_pages
       = (Written ''Foo: hello'', two_pages)" by (simp add: renderPageTemplate_def)
  from t p n l a b show ?thesis by simp
qed

text \<open>
  C6: for a valid title with no stored document, a request to \<open>/edit/<title>\<close> passes
  the router and the response is the edit template rendered with the page of that title
  and an empty body: not a not-found answer, not a redirect, and the output of the
  template when the template executes without error.
\<close>

theorem edit_missing_page_blank_form:
  assumes t: "valid_title title" and p: "URL_Path r = ''/edit/'' @ title"
    and n: "\<not> stored title coll"
  shows "makeHandler (editHandler templates) r coll
           = (renderPageTemplate templates ''edit'' \<lparr>Title = title, Body = []\<rparr>, coll)
       \<and> (\<forall>out. templates ''edit.html'' (PageData \<lparr>Title = title, Body = []\<rparr>) = Inr out \<longrightarrow>
            makeHandler (editHandler templates) r coll = (Written out, coll))"
proof -
  have "URL_Path r = ''/'' @ ''edit'' @ ''/'' @ title" using p by simp
  then have mh: "makeHandler (editHandler templates) r coll = editHandler templates r title coll"
    using t by (intro makeHandler_valid [where a = "''edit''"]) simp_all
  have blank: "editHandler templates r title coll
      = (renderPageTemplate templates ''edit'' \<lparr>Title = title, Body = []\<rparr>, coll)"
    using n by (simp add: editHandler_def loadPage_not_stored)
  have rendered: "renderPageTemplate templates ''edit'' pg = Written out"
    if "templates ''edit.html'' (PageData pg) = Inr out" for pg out
    using that by (simp add: renderPageTemplate_def)
  from mh blank rendered show ?thesis by simp
qed

text \<open>
  Witness: the hypotheses hold for \<open>/edit/Foo\<close> on the empty collection.
\<close>

theorem edit_missing_page_blank_form_witness:
  "valid_title ''Foo'' \<and> URL_Path (request_for ''/edit/Foo'') = ''/edit/'' @ ''Foo''
   \<and> \<not> stored ''Foo'' empty_collection
   \<and> makeHandler (editHandler sample_templates) (request_for ''/edit/Foo'') empty_collection
       = (Written ''Foo: '', empty_collection)"
proof -
  have t: "valid_title ''Foo''" by (simp add: valid_title_def alnum_def)
  have p: "URL_Path (request_for ''/edit/Foo'') = ''/edit/'' @ ''Foo''"
    by (simp add: request_for_def)
  have n: "\<not> stored ''Foo'' empty_collection" by (simp add: stored_def empty_collection_def)
  from edit_missing_page_blank_form [OF t p n, of sample_templates]
  have "makeHandler (editHandler sample_templates) (request_for ''/edit/Foo'') empty_collection
       = (Written ''Foo: '', empty_collection)" by (simp add: renderPageTemplate_def)
  with t p n show ?thesis by simp
qed

text \<open>
  C7: for a path \<open>/view/t\<close>, \<open>/edit/t\<close>, \<open>/save/t\<close> or \<open>/delete/t\<close> whose title part
  \<open>t\<close> does not match \<open>^[a-zA-Z0-9]+$\<close>, the handler built by \<open>makeHandler\<close> answers
  not-found and leaves the collection unchanged, whatever the wrapped function is: the
  wrapped function is not called.
\<close>

theorem invalid_title_not_found:
  assumes a: "a \<in> set [''view'', ''edit'', ''save'', ''delete'']" and t: "\<not> valid_title t"
    and p: "URL_Path r = ''/'' @ a @ ''/'' @ t"
  shows "makeHandler fn r coll = (NotFound, coll)"
proof -
  from a have "a \<in> set [''edit'', ''save'', ''view'', ''delete'']" by auto
  from validPath_no_match [OF this t] p show ?thesis
    by (simp add: makeHandler_def)
qed

text \<open>
  Witness: the hypotheses hold for a title with a slash and for a title with a space.
\<close>

theorem invalid_title_not_found_witness:
  "''delete'' \<in> set [''view'', ''edit'', ''save'', ''delete''] \<and> \<not> valid_title ''Foo/x''
   \<and> \<not> valid_title ''a b''
   \<and> makeHandler deleteHandler (request_for ''/delete/Foo/x'') two_pages = (NotFound, two_pages)
   \<and> makeHandler saveHandler (request_for ''/save/a b'') two_pages = (NotFound, two_pages)"
proof -
  have a: "''delete'' \<in> set [''view'', ''edit'', ''save'', ''delete'']" by simp
  have a': "''save'' \<in> set [''view'', ''edit'', ''save'', ''delete'']" by simp
  have t: "\<not> valid_title ''Foo/x''" by (simp add: valid_title_def alnum_def)
  have t': "\<not> valid_title ''a b''" by (simp add: valid_title_def alnum_def)
  have p: "URL_Path (request_for ''/delete/Foo/x'') = ''/'' @ ''delete'' @ ''/'' @ ''Foo/x''"
    by (simp add: request_for_def)
  have p': "URL_Path (request_for ''/save/a b'') = ''/'' @ ''save'' @ ''/'' @ ''a b''"
    by (simp add: request_for_def)
  from a t t' invalid_title_not_found [OF a t p, of deleteHandler two_pages]
    invalid_title_not_found [OF a' t' p', of saveHandler two_pages]
  show ?thesis by simp
qed

text \<open>
  C8 (counterexample): while the database answers with an error, a request to
  \<open>/view/Foo\<close> is answered with a redirect to \<open>/edit/Foo\<close>, not with status 500 and the
  error message.
\<close>

theorem view_storage_failure_is_redirect:
  "failure unreachable_collection = Some ''server selection error''
   \<and> makeHandler (viewHandler sample_templates) (request_for ''/view/Foo'') unreachable_collection
       = (Redirect ''/edit/Foo'' StatusFound, unreachable_collection)
   \<and> fst (makeHandler (viewHandler sample_templates) (request_for ''/view/Foo'') unreachable_collection)
       \<noteq> HttpError ''server selection error'' StatusInternalServerError"
  by (simp add: unreachable_collection_def makeHandler_def validPath_FindStringSubmatch_def
      match_alternative_def alnum_def request_for_def viewHandler_def loadPage_def FindOne_def)

text \<open>
  C8 (amended): when the storage operation fails with an error, the save and delete
  handlers respond with status 500 carrying the message of that error and leave the
  collection unchanged; the load of the view and edit handlers reports the failure as a
  page that is not found, so the view handler redirects to \<open>/edit/<title>\<close> and the edit
  handler renders the edit template with an empty body.
\<close>

theorem storage_failure_responses:
  assumes f: "failure coll = Some e"
  shows "saveHandler r title coll = (HttpError e StatusInternalServerError, coll)
       \<and> deleteHandler r title coll = (HttpError e StatusInternalServerError, coll)
       \<and> viewHandler templates r title coll = (Redirect (''/edit/'' @ title) StatusFound, coll)
       \<and> editHandler templates r title coll
           = (renderPageTemplate templates ''edit'' \<lparr>Title = title, Body = []\<rparr>, coll)"
proof -
  have s: "saveHandler r title coll = (HttpError e StatusInternalServerError, coll)"
    using f by (simp add: saveHandler_def save_result)
  have d: "deleteHandler r title coll = (HttpError e StatusInternalServerError, coll)"
    using f by (simp add: deleteHandler_def deletePage_result)
  have v: "viewHandler templates r title coll = (Redirect (''/edit/'' @ title) StatusFound, coll)"
    using f by (simp add: viewHandler_def loadPage_failure)
  have ed: "editHandler templates r title coll
           = (renderPageTemplate templates ''edit'' \<lparr>Title = title, Body = []\<rparr>, coll)"
    using f by (simp add: editHandler_def loadPage_failure)
  from s d v ed show ?thesis by simp
qed

text \<open>
  Witness: the hypothesis holds for a collection whose database cannot be
  reached.
\<close>

theorem storage_failure_responses_witness:
  "failure unreachable_collection = Some ''server selection error''
   \<and> saveHandler (request_for ''/save/Foo'') ''Foo'' unreachable_collection
       = (HttpError ''server selection error'' StatusInternalServerError, unreachable_collection)
   \<and> deleteHandler (request_for ''/delete/Foo'') ''Foo'' unreachable_collection
       = (HttpError ''server selection error'' StatusInternalServerError, unreachable_collection)
   \<and> viewHandler sample_templates (request_for ''/view/Foo'') ''Foo'' unreachable_collection
       = (Redirect ''/edit/Foo'' StatusFound, unreachable_collection)
   \<and> editHandler sample_templates (request_for ''/edit/Foo'') ''Foo'' unreachable_collection
       = (Written ''Foo: '', unreachable_collection)"
proof -
  have f: "failure unreachable_collection = Some ''server selection error''"
    by (simp add: unreachable_collection_def)
  from f storage_failure_responses [OF f, of "request_for ''/save/Foo''" "''Foo''" sample_templates]
    storage_failure_responses [OF f, of "request_for ''/delete/Foo''" "''Foo''" sample_templates]
    storage_failure_responses [OF f, of "request_for ''/view/Foo''" "''Foo''" sample_templates]
    storage_failure_responses [OF f, of "request_for ''/edit/Foo''" "''Foo''" sample_templates]
  show ?thesis by (simp add: renderPageTemplate_def)
qed

text \<open>
  C9 (the code at the failing input): when fetching the titles fails, \<open>listPages\<close> ends
  the process with \<open>log.Fatal\<close>, so the list handler sends no redirect to \<open>/list\<close>: it
  sends no response at all.
\<close>

theorem list_storage_failure_ends_process:
  "listHandler sample_templates (request_for ''/list'') unreachable_collection
     = Fatal ''server selection error''"
  by (simp add: listHandler_def listPages_def Find_def unreachable_collection_def)

text \<open>
  C10 (the code at the failing input): a save request for \<open>Foo\<close> without a \<open>body\<close> field
  reads the body as the empty string and is answered with a redirect to \<open>/view/Foo\<close>,
  but on a collection with no document titled \<open>Foo\<close> no page is stored.
\<close>

theorem save_request_without_body_absent_title:
  "FormValue (request_for ''/save/Foo'') ''body'' = []
   \<and> makeHandler saveHandler (request_for ''/save/Foo'') empty_collection
       = (Redirect ''/view/Foo'' StatusFound, empty_collection)"
  by (simp add: FormValue_def request_for_def makeHandler_def validPath_FindStringSubmatch_def
      match_alternative_def alnum_def saveHandler_def save_result empty_collection_def)

end
